theory Spec2Isabelle
  imports Complex_Main "HOL-Library.Word"
begin

section \<open>JavaScript values read by the validation middleware\<close>

text \<open>
  The middleware of \<^verbatim>\<open>src/error.js\<close> inspects the fields of \<^verbatim>\<open>req.body\<close> with
  \<^verbatim>\<open>typeof\<close>, strict (in)equality against \<^verbatim>\<open>undefined\<close>, \<^verbatim>\<open>true\<close> and \<^verbatim>\<open>false\<close>,
  the truthiness test \<^verbatim>\<open>!password\<close>, the numeric comparisons \<^verbatim>\<open><\<close> and \<^verbatim>\<open>>\<close> and
  the \<^verbatim>\<open>length\<close> of a string.

  A number is an IEEE double. Every finite double is a rational, and the comparison of two
  doubles is the comparison of their values, so a finite number is modelled by its value
  (both zeros are \<open>Fin 0\<close>: they compare equal and both are falsy); the three special
  values are kept apart. A string is its sequence of UTF-16 code units, which is what
  \<^verbatim>\<open>.length\<close> counts.
\<close>

type_synonym code_unit = "16 word"

datatype jsnum = NaN | PosInf | NegInf | Fin rat

datatype jsval =
    JUndefined
  | JNull
  | JBool bool
  | JNum jsnum
  | JStr "code_unit list"
  | JArr "jsval list"
  | JObj "(string \<times> jsval) list"

text \<open>The operator \<^verbatim>\<open>typeof\<close>.\<close>

fun typeof_js :: "jsval \<Rightarrow> string" where
  "typeof_js JUndefined = ''undefined''"
| "typeof_js JNull = ''object''"
| "typeof_js (JBool _) = ''boolean''"
| "typeof_js (JNum _) = ''number''"
| "typeof_js (JStr _) = ''string''"
| "typeof_js (JArr _) = ''object''"
| "typeof_js (JObj _) = ''object''"

text \<open>
  Truthiness (\<^verbatim>\<open>ToBoolean\<close>): \<^verbatim>\<open>undefined\<close>, \<^verbatim>\<open>null\<close>, \<^verbatim>\<open>false\<close>, \<^verbatim>\<open>0\<close>, \<^verbatim>\<open>NaN\<close>
  and the empty string are falsy, every other value is truthy.
\<close>

fun truthy :: "jsval \<Rightarrow> bool" where
  "truthy JUndefined = False"
| "truthy JNull = False"
| "truthy (JBool b) = b"
| "truthy (JNum NaN) = False"
| "truthy (JNum (Fin q)) = (q \<noteq> 0)"
| "truthy (JNum PosInf) = True"
| "truthy (JNum NegInf) = True"
| "truthy (JStr s) = (s \<noteq> [])"
| "truthy (JArr _) = True"
| "truthy (JObj _) = True"

text \<open>
  \<^verbatim>\<open>a < b\<close> on two numbers: false as soon as one of them is \<^verbatim>\<open>NaN\<close>.
  \<^verbatim>\<open>a > b\<close> is \<^verbatim>\<open>b < a\<close>.
\<close>

fun num_lt :: "jsnum \<Rightarrow> jsnum \<Rightarrow> bool" where
  "num_lt NaN _ = False"
| "num_lt _ NaN = False"
| "num_lt (Fin a) (Fin b) = (a < b)"
| "num_lt (Fin _) PosInf = True"
| "num_lt (Fin _) NegInf = False"
| "num_lt NegInf NegInf = False"
| "num_lt NegInf _ = True"
| "num_lt PosInf _ = False"

definition num_gt :: "jsnum \<Rightarrow> jsnum \<Rightarrow> bool" where
  "num_gt a b = num_lt b a"

section \<open>Requests, responses and the outcome of a middleware\<close>

text \<open>
  \<^verbatim>\<open>req.body\<close> is seen through its property reads: \<open>body req f\<close> is the value of
  \<^verbatim>\<open>req.body[f]\<close>, which is \<^verbatim>\<open>undefined\<close> for a field the body does not have.
  The body is the object installed by \<^verbatim>\<open>express.json()\<close>, which the application mounts
  before the routes.
\<close>

type_synonym props = "string \<Rightarrow> jsval"

record request =
  body :: props

text \<open>The JSON object sent by \<^verbatim>\<open>res.status(s).json({success: .., error: ..})\<close>.\<close>

record response =
  status :: nat
  success :: bool
  error :: string

text \<open>
  A middleware either sends a response and returns, or calls \<^verbatim>\<open>next()\<close>.
  It is given the request object and may write to it, so a middleware is a function from
  the request to the request after the call and the outcome.
\<close>

datatype outcome = Responded response | Next

definition bad_request :: "string \<Rightarrow> response" where
  "bad_request msg = \<lparr>status = 400, success = False, error = msg\<rparr>"

section \<open>validatePasswordRequest\<close>

text \<open>
  The condition \<^verbatim>\<open>typeof length !== 'number' || length < 4 || length > 128\<close>.
  \<^verbatim>\<open>||\<close> evaluates its right operand only when the left one is false, so the two
  comparisons are only ever made on a number.
\<close>

definition length_out_of_range :: "jsval \<Rightarrow> bool" where
  "length_out_of_range v =
     (case v of JNum n \<Rightarrow> num_lt n (Fin 4) \<or> num_gt n (Fin 128) | _ \<Rightarrow> True)"

text \<open>The block \<^verbatim>\<open>// Validate length\<close> (lines 87 to 95): the response it sends, if any.\<close>

definition validateLength :: "props \<Rightarrow> response option" where
  "validateLength b =
     (let len = b ''length'' in
      if len \<noteq> JUndefined then
        (if length_out_of_range len
         then Some (bad_request ''Length must be a number between 4 and 128'')
         else None)
      else None)"

definition booleanFields :: "string list" where
  "booleanFields =
     [''includeUpper'', ''includeLower'', ''includeNumbers'', ''includeSymbols'',
      ''excludeSimilar'']"

text \<open>
  The loop \<^verbatim>\<open>for (const field of booleanFields)\<close> (lines 99 to 106): it returns at the
  first field that is defined and not a boolean.
\<close>

fun validateBooleanFlags :: "props \<Rightarrow> string list \<Rightarrow> response option" where
  "validateBooleanFlags b [] = None"
| "validateBooleanFlags b (field # rest) =
     (if b field \<noteq> JUndefined \<and> typeof_js (b field) \<noteq> ''boolean''
      then Some (bad_request (field @ '' must be a boolean value''))
      else validateBooleanFlags b rest)"

text \<open>The constant \<^verbatim>\<open>hasAtLeastOneType\<close> (lines 109 to 113).\<close>

definition hasAtLeastOneType :: "props \<Rightarrow> bool" where
  "hasAtLeastOneType b =
     (b ''includeUpper'' \<noteq> JBool False \<or>
      b ''includeLower'' \<noteq> JBool False \<or>
      b ''includeNumbers'' \<noteq> JBool False \<or>
      b ''includeSymbols'' = JBool True)"

definition validatePasswordRequest :: "request \<Rightarrow> request \<times> outcome" where
  "validatePasswordRequest req =
     (case validateLength (body req) of
        Some r \<Rightarrow> (req, Responded r)
      | None \<Rightarrow>
         (case validateBooleanFlags (body req) booleanFields of
            Some r \<Rightarrow> (req, Responded r)
          | None \<Rightarrow>
             (if \<not> hasAtLeastOneType (body req)
              then (req, Responded (bad_request ''At least one character type must be selected''))
              else (req, Next))))"

section \<open>validateBatchRequest\<close>

definition count_out_of_range :: "jsval \<Rightarrow> bool" where
  "count_out_of_range v =
     (case v of JNum n \<Rightarrow> num_lt n (Fin 1) \<or> num_gt n (Fin 20) | _ \<Rightarrow> True)"

definition validateBatchRequest :: "request \<Rightarrow> request \<times> outcome" where
  "validateBatchRequest req =
     (let count = body req ''count'' in
      if count \<noteq> JUndefined \<and> count_out_of_range count
      then (req, Responded (bad_request ''Count must be a number between 1 and 20''))
      else validatePasswordRequest req)"

section \<open>validateStrengthRequest\<close>

text \<open>
  The four tests in the order of the source. Once \<^verbatim>\<open>typeof password !== 'string'\<close> has
  not returned, \<^verbatim>\<open>password\<close> is a string and \<^verbatim>\<open>password.length\<close> is the number of its
  code units.
\<close>

definition validateStrengthRequest :: "request \<Rightarrow> request \<times> outcome" where
  "validateStrengthRequest req =
     (let password = body req ''password'' in
      if \<not> truthy password
      then (req, Responded (bad_request ''Password is required''))
      else
        (case password of
           JStr s \<Rightarrow>
             (if length s = 0
              then (req, Responded (bad_request ''Password cannot be empty''))
              else if length s > 1000
              then (req, Responded
                     (bad_request ''Password too long for analysis (max 1000 characters)''))
              else (req, Next))
         | _ \<Rightarrow> (req, Responded (bad_request ''Password must be a string''))))"

section \<open>validatePassphraseRequest\<close>

definition wordCount_out_of_range :: "jsval \<Rightarrow> bool" where
  "wordCount_out_of_range v =
     (case v of JNum n \<Rightarrow> num_lt n (Fin 2) \<or> num_gt n (Fin 10) | _ \<Rightarrow> True)"

text \<open>The condition \<^verbatim>\<open>typeof separator !== 'string' || separator.length > 5\<close>.\<close>

definition separator_invalid :: "jsval \<Rightarrow> bool" where
  "separator_invalid v = (case v of JStr s \<Rightarrow> length s > 5 | _ \<Rightarrow> True)"

definition validatePassphraseRequest :: "request \<Rightarrow> request \<times> outcome" where
  "validatePassphraseRequest req =
     (let wordCount = body req ''wordCount'';
          separator = body req ''separator'' in
      if wordCount \<noteq> JUndefined \<and> wordCount_out_of_range wordCount
      then (req, Responded (bad_request ''Word count must be a number between 2 and 10''))
      else if separator \<noteq> JUndefined \<and> separator_invalid separator
      then (req, Responded
             (bad_request ''Separator must be a string with maximum 5 characters''))
      else (req, Next))"

section \<open>Request bodies for concrete requests\<close>

text \<open>
  The property reads of the object written \<^verbatim>\<open>{k1: v1, ..., kn: vn}\<close> (distinct keys):
  a field of the literal reads as its value, any other field as \<^verbatim>\<open>undefined\<close>.
\<close>

definition object_props :: "(string \<times> jsval) list \<Rightarrow> props" where
  "object_props kvs f = (case map_of kvs f of None \<Rightarrow> JUndefined | Some v \<Rightarrow> v)"

text \<open>A field that is present with a value that is not a boolean (line 100).\<close>

definition non_boolean :: "props \<Rightarrow> string \<Rightarrow> bool" where
  "non_boolean b f = (b f \<noteq> JUndefined \<and> typeof_js (b f) \<noteq> ''boolean'')"

section \<open>Helper facts\<close>

lemma length_out_of_range_iff:
  "length_out_of_range v \<longleftrightarrow>
     typeof_js v \<noteq> ''number'' \<or> (\<exists>n. v = JNum n \<and> (num_lt n (Fin 4) \<or> num_gt n (Fin 128)))"
  by (cases v) (simp_all add: length_out_of_range_def)

lemma validateBooleanFlags_error:
  "validateBooleanFlags b fs = Some r \<Longrightarrow>
     \<exists>f \<in> set fs. r = bad_request (f @ '' must be a boolean value'')"
  by (induction fs) (auto split: if_splits)

lemma flags_not_length_error:
  "validateBooleanFlags b booleanFields \<noteq>
     Some (bad_request ''Length must be a number between 4 and 128'')"
proof
  assume "validateBooleanFlags b booleanFields =
     Some (bad_request ''Length must be a number between 4 and 128'')"
  from validateBooleanFlags_error [OF this]
  show False by (simp add: booleanFields_def bad_request_def)
qed

lemma bad_request_inj: "bad_request a = bad_request b \<longleftrightarrow> a = b"
  by (simp add: bad_request_def)

lemma validateLength_None:
  "validateLength b = None \<longleftrightarrow>
     b ''length'' = JUndefined \<or> \<not> length_out_of_range (b ''length'')"
  by (simp add: validateLength_def Let_def)

lemma validateLength_Some:
  "validateLength b = Some r \<longleftrightarrow>
     b ''length'' \<noteq> JUndefined \<and> length_out_of_range (b ''length'') \<and>
     r = bad_request ''Length must be a number between 4 and 128''"
  by (auto simp add: validateLength_def Let_def)

lemma validateBooleanFlags_find:
  "validateBooleanFlags b fs =
     (case find (non_boolean b) fs of
        None \<Rightarrow> None
      | Some f \<Rightarrow> Some (bad_request (f @ '' must be a boolean value'')))"
  by (induction fs) (simp_all add: non_boolean_def)

lemma validateBooleanFlags_None:
  "validateBooleanFlags b fs = None \<longleftrightarrow> (\<forall>f \<in> set fs. \<not> non_boolean b f)"
  by (induction fs) (simp_all add: non_boolean_def)

lemma validatePasswordRequest_outcome:
  "snd (validatePasswordRequest req) =
     (case validateLength (body req) of
        Some r \<Rightarrow> Responded r
      | None \<Rightarrow>
         (case validateBooleanFlags (body req) booleanFields of
            Some r \<Rightarrow> Responded r
          | None \<Rightarrow>
             (if hasAtLeastOneType (body req) then Next
              else Responded (bad_request ''At least one character type must be selected''))))"
  by (simp add: validatePasswordRequest_def split: option.splits)

lemma flags_not_type_error:
  "validateBooleanFlags b booleanFields \<noteq>
     Some (bad_request ''At least one character type must be selected'')"
proof
  assume "validateBooleanFlags b booleanFields =
     Some (bad_request ''At least one character type must be selected'')"
  from validateBooleanFlags_error [OF this]
  show False by (simp add: booleanFields_def bad_request_def)
qed

lemma password_length_error_iff:
  "snd (validatePasswordRequest req) =
     Responded (bad_request ''Length must be a number between 4 and 128'')
   \<longleftrightarrow> validateLength (body req) \<noteq> None"
proof (cases "validateLength (body req)")
  case None
  then show ?thesis
    using flags_not_length_error [of "body req"]
    by (auto simp add: validatePasswordRequest_outcome bad_request_inj split: option.splits)
next
  case (Some r)
  then have "r = bad_request ''Length must be a number between 4 and 128''"
    by (simp add: validateLength_Some)
  with Some show ?thesis
    by (simp add: validatePasswordRequest_outcome)
qed

lemma password_type_error_iff:
  "snd (validatePasswordRequest req) =
     Responded (bad_request ''At least one character type must be selected'')
   \<longleftrightarrow> validateLength (body req) = None \<and>
       validateBooleanFlags (body req) booleanFields = None \<and>
       \<not> hasAtLeastOneType (body req)"
proof (cases "validateLength (body req)")
  case None
  then show ?thesis
    using flags_not_type_error [of "body req"]
    by (auto simp add: validatePasswordRequest_outcome split: option.splits)
next
  case (Some r)
  then have "r = bad_request ''Length must be a number between 4 and 128''"
    by (simp add: validateLength_Some)
  with Some show ?thesis
    by (simp add: validatePasswordRequest_outcome bad_request_inj)
qed

lemma password_Next_iff:
  "snd (validatePasswordRequest req) = Next
   \<longleftrightarrow> validateLength (body req) = None \<and>
       validateBooleanFlags (body req) booleanFields = None \<and>
       hasAtLeastOneType (body req)"
  by (auto simp add: validatePasswordRequest_outcome split: option.splits)

lemma count_out_of_range_iff:
  "count_out_of_range v \<longleftrightarrow>
     typeof_js v \<noteq> ''number'' \<or> (\<exists>n. v = JNum n \<and> (num_lt n (Fin 1) \<or> num_gt n (Fin 20)))"
  by (cases v) (simp_all add: count_out_of_range_def)

lemma wordCount_out_of_range_iff:
  "wordCount_out_of_range v \<longleftrightarrow>
     typeof_js v \<noteq> ''number'' \<or> (\<exists>n. v = JNum n \<and> (num_lt n (Fin 2) \<or> num_gt n (Fin 10)))"
  by (cases v) (simp_all add: wordCount_out_of_range_def)

lemma wordCount_in_range_iff:
  "\<not> wordCount_out_of_range v \<longleftrightarrow>
     (\<exists>n. v = JNum n \<and> \<not> num_lt n (Fin 2) \<and> \<not> num_gt n (Fin 10))"
  by (cases v) (simp_all add: wordCount_out_of_range_def)

lemma separator_invalid_iff:
  "separator_invalid v \<longleftrightarrow>
     typeof_js v \<noteq> ''string'' \<or> (\<exists>s. v = JStr s \<and> length s > 5)"
  by (cases v) (simp_all add: separator_invalid_def)

lemma separator_valid_iff:
  "\<not> separator_invalid v \<longleftrightarrow> (\<exists>s. v = JStr s \<and> length s \<le> 5)"
  by (cases v) (auto simp add: separator_invalid_def)

lemma validatePasswordRequest_responses:
  assumes "snd (validatePasswordRequest req) = Responded r"
  shows "r = bad_request ''Length must be a number between 4 and 128'' \<or>
         r = bad_request ''At least one character type must be selected'' \<or>
         (\<exists>f \<in> set booleanFields. r = bad_request (f @ '' must be a boolean value''))"
proof (cases "validateLength (body req)")
  case (Some r')
  with assms show ?thesis
    by (simp add: validatePasswordRequest_outcome validateLength_Some)
next
  case None
  note len = this
  show ?thesis
  proof (cases "validateBooleanFlags (body req) booleanFields")
    case None
    with len assms show ?thesis
      by (auto simp add: validatePasswordRequest_outcome split: if_splits)
  next
    case (Some r')
    with len assms have "r' = r"
      by (simp add: validatePasswordRequest_outcome)
    with Some validateBooleanFlags_error [of "body req" booleanFields r]
    show ?thesis by simp
  qed
qed

lemma password_not_count_error:
  "snd (validatePasswordRequest req) \<noteq>
     Responded (bad_request ''Count must be a number between 1 and 20'')"
proof
  assume "snd (validatePasswordRequest req) =
     Responded (bad_request ''Count must be a number between 1 and 20'')"
  from validatePasswordRequest_responses [OF this]
  show False by (simp add: booleanFields_def bad_request_def)
qed

lemma validatePasswordRequest_fst: "fst (validatePasswordRequest req) = req"
  by (simp add: validatePasswordRequest_def split: option.splits)

lemma hasAtLeastOneType_iff:
  "\<not> hasAtLeastOneType b \<longleftrightarrow>
     b ''includeUpper'' = JBool False \<and> b ''includeLower'' = JBool False \<and>
     b ''includeNumbers'' = JBool False \<and> b ''includeSymbols'' \<noteq> JBool True"
  by (auto simp add: hasAtLeastOneType_def)

lemma validateStrengthRequest_outcome:
  "snd (validateStrengthRequest req) =
     (if \<not> truthy (body req ''password'')
      then Responded (bad_request ''Password is required'')
      else if typeof_js (body req ''password'') \<noteq> ''string''
      then Responded (bad_request ''Password must be a string'')
      else case body req ''password'' of
             JStr s \<Rightarrow>
               (if length s = 0 then Responded (bad_request ''Password cannot be empty'')
                else if length s > 1000
                then Responded (bad_request ''Password too long for analysis (max 1000 characters)'')
                else Next)
           | _ \<Rightarrow> Next)"
  by (cases "body req ''password''") (simp_all add: validateStrengthRequest_def Let_def)

lemma strength_Next_iff:
  "snd (validateStrengthRequest req) = Next \<longleftrightarrow>
     (\<exists>s. body req ''password'' = JStr s \<and> 1 \<le> length s \<and> length s \<le> 1000)"
  by (cases "body req ''password''")
     (auto simp add: validateStrengthRequest_outcome Suc_le_eq)

lemma strength_Responded:
  "snd (validateStrengthRequest req) \<noteq> Next \<Longrightarrow>
     \<exists>e. snd (validateStrengthRequest req) = Responded (bad_request e)"
  by (cases "body req ''password''")
     (auto simp add: validateStrengthRequest_outcome split: if_splits)

lemma validatePassphraseRequest_outcome:
  "snd (validatePassphraseRequest req) =
     (if body req ''wordCount'' \<noteq> JUndefined \<and> wordCount_out_of_range (body req ''wordCount'')
      then Responded (bad_request ''Word count must be a number between 2 and 10'')
      else if body req ''separator'' \<noteq> JUndefined \<and> separator_invalid (body req ''separator'')
      then Responded (bad_request ''Separator must be a string with maximum 5 characters'')
      else Next)"
  by (simp add: validatePassphraseRequest_def Let_def)

section \<open>The length check of validatePasswordRequest\<close>

text \<open>
  Claim C4. For every request whose body defines \<^verbatim>\<open>length\<close>, \<open>validatePasswordRequest\<close>
  answers with HTTP 400 and the error \<^verbatim>\<open>Length must be a number between 4 and 128\<close>
  exactly when \<^verbatim>\<open>length\<close> is not a number, or \<^verbatim>\<open>length < 4\<close>, or \<^verbatim>\<open>length > 128\<close>
  (the comparisons being those of JavaScript); and a finite numeric \<^verbatim>\<open>length\<close> passes
  the length check exactly when \<open>4 \<le> length \<le> 128\<close>.
\<close>

theorem C4_length_check:
  assumes "body req ''length'' \<noteq> JUndefined"
  shows "(snd (validatePasswordRequest req) =
            Responded (bad_request ''Length must be a number between 4 and 128'')
          \<longleftrightarrow> typeof_js (body req ''length'') \<noteq> ''number'' \<or>
              (\<exists>n. body req ''length'' = JNum n \<and> (num_lt n (Fin 4) \<or> num_gt n (Fin 128))))
       \<and> (\<forall>q. body req ''length'' = JNum (Fin q) \<longrightarrow>
              (validateLength (body req) = None \<longleftrightarrow> 4 \<le> q \<and> q \<le> 128))"
proof (intro conjI allI impI)
  have "validateLength (body req) \<noteq> None \<longleftrightarrow> length_out_of_range (body req ''length'')"
    using assms by (simp add: validateLength_None)
  then show "snd (validatePasswordRequest req) =
            Responded (bad_request ''Length must be a number between 4 and 128'')
          \<longleftrightarrow> typeof_js (body req ''length'') \<noteq> ''number'' \<or>
              (\<exists>n. body req ''length'' = JNum n \<and> (num_lt n (Fin 4) \<or> num_gt n (Fin 128)))"
    by (simp only: password_length_error_iff length_out_of_range_iff)
next
  fix q
  assume "body req ''length'' = JNum (Fin q)"
  then show "validateLength (body req) = None \<longleftrightarrow> 4 \<le> q \<and> q \<le> 128"
    by (auto simp add: validateLength_None length_out_of_range_def num_gt_def)
qed

theorem C4_length_check_witness:
  "body \<lparr>body = object_props [(''length'', JNum (Fin 2))]\<rparr> ''length'' \<noteq> JUndefined
   \<and> snd (validatePasswordRequest \<lparr>body = object_props [(''length'', JNum (Fin 2))]\<rparr>) =
       Responded (bad_request ''Length must be a number between 4 and 128'')
   \<and> validateLength (body \<lparr>body = object_props [(''length'', JNum (Fin 64))]\<rparr>) = None"
  using C4_length_check [of "\<lparr>body = object_props [(''length'', JNum (Fin 2))]\<rparr>"]
        C4_length_check [of "\<lparr>body = object_props [(''length'', JNum (Fin 64))]\<rparr>"]
  by (simp add: object_props_def)

section \<open>The flag checks of validatePasswordRequest\<close>

text \<open>
  Claim C7, as stated, fails: a request whose \<^verbatim>\<open>length\<close> is 2 and whose
  \<^verbatim>\<open>includeUpper\<close> is the string \<^verbatim>\<open>"yes"\<close> has a flag that is present and not a
  boolean, yet the response is the error of the length check, which comes first, and not
  \<^verbatim>\<open>includeUpper must be a boolean value\<close>.
\<close>

theorem C7_counterexample:
  "non_boolean
     (object_props [(''length'', JNum (Fin 2)), (''includeUpper'', JStr [121, 101, 115])])
     ''includeUpper''
   \<and> snd (validatePasswordRequest
        \<lparr>body = object_props
           [(''length'', JNum (Fin 2)), (''includeUpper'', JStr [121, 101, 115])]\<rparr>) =
       Responded (bad_request ''Length must be a number between 4 and 128'')
   \<and> snd (validatePasswordRequest
        \<lparr>body = object_props
           [(''length'', JNum (Fin 2)), (''includeUpper'', JStr [121, 101, 115])]\<rparr>) \<noteq>
       Responded (bad_request (''includeUpper'' @ '' must be a boolean value''))"
  by (simp add: validatePasswordRequest_def validateLength_def length_out_of_range_def
        object_props_def bad_request_def non_boolean_def)

text \<open>
  Claim C7, amended. For every request that passes the length check: if one of the five
  flags \<^verbatim>\<open>includeUpper\<close>, \<^verbatim>\<open>includeLower\<close>, \<^verbatim>\<open>includeNumbers\<close>, \<^verbatim>\<open>includeSymbols\<close>,
  \<^verbatim>\<open>excludeSimilar\<close> is present with a non-boolean value, \<open>validatePasswordRequest\<close>
  answers with HTTP 400 and the error \<^verbatim>\<open><field> must be a boolean value\<close>, where
  \<^verbatim>\<open><field>\<close> is the first such flag in that order; and a request whose present flags
  are all booleans passes the flag-type check.
\<close>

theorem C7_flag_types:
  assumes "validateLength (body req) = None"
  shows "((\<exists>f \<in> set booleanFields. non_boolean (body req) f) \<longrightarrow>
            (\<exists>g \<in> set booleanFields.
               find (non_boolean (body req)) booleanFields = Some g \<and>
               non_boolean (body req) g \<and>
               snd (validatePasswordRequest req) =
                 Responded (bad_request (g @ '' must be a boolean value''))))
       \<and> ((\<forall>f \<in> set booleanFields. \<not> non_boolean (body req) f) \<longrightarrow>
            validateBooleanFlags (body req) booleanFields = None)"
proof (intro conjI impI)
  assume "\<exists>f \<in> set booleanFields. non_boolean (body req) f"
  then obtain g where g: "find (non_boolean (body req)) booleanFields = Some g"
    by (cases "find (non_boolean (body req)) booleanFields") (auto simp add: find_None_iff)
  then have mem: "g \<in> set booleanFields" and bad: "non_boolean (body req) g"
    by (auto simp add: find_Some_iff)
  from g have "validateBooleanFlags (body req) booleanFields =
      Some (bad_request (g @ '' must be a boolean value''))"
    by (simp add: validateBooleanFlags_find)
  with assms have "snd (validatePasswordRequest req) =
      Responded (bad_request (g @ '' must be a boolean value''))"
    by (simp add: validatePasswordRequest_outcome)
  with g mem bad
  show "\<exists>g \<in> set booleanFields.
               find (non_boolean (body req)) booleanFields = Some g \<and>
               non_boolean (body req) g \<and>
               snd (validatePasswordRequest req) =
                 Responded (bad_request (g @ '' must be a boolean value''))"
    by blast
next
  assume "\<forall>f \<in> set booleanFields. \<not> non_boolean (body req) f"
  then show "validateBooleanFlags (body req) booleanFields = None"
    by (simp only: validateBooleanFlags_None)
qed

theorem C7_flag_types_witness:
  "validateLength (body
      \<lparr>body = object_props [(''includeLower'', JNum (Fin 5)), (''includeSymbols'', JNull)]\<rparr>)
     = None
   \<and> snd (validatePasswordRequest
      \<lparr>body = object_props [(''includeLower'', JNum (Fin 5)), (''includeSymbols'', JNull)]\<rparr>)
     = Responded (bad_request ''includeLower must be a boolean value'')
   \<and> validateBooleanFlags (body \<lparr>body = object_props [(''includeLower'', JBool True)]\<rparr>)
       booleanFields = None"
  using C7_flag_types [of
      "\<lparr>body = object_props [(''includeLower'', JNum (Fin 5)), (''includeSymbols'', JNull)]\<rparr>"]
    C7_flag_types [of "\<lparr>body = object_props [(''includeLower'', JBool True)]\<rparr>"]
  by (simp add: object_props_def booleanFields_def non_boolean_def validateLength_def)

text \<open>
  Claim C1, as stated, fails: the request with \<^verbatim>\<open>length\<close> 2 and \<^verbatim>\<open>includeUpper\<close>,
  \<^verbatim>\<open>includeLower\<close>, \<^verbatim>\<open>includeNumbers\<close> all \<^verbatim>\<open>false\<close> has the three flags explicitly
  false and \<^verbatim>\<open>includeSymbols\<close> not true, yet it is not answered with
  \<^verbatim>\<open>At least one character type must be selected\<close>: the length check answers first.
\<close>

theorem C1_counterexample:
  "\<not> (snd (validatePasswordRequest
          \<lparr>body = object_props
             [(''length'', JNum (Fin 2)), (''includeUpper'', JBool False),
              (''includeLower'', JBool False), (''includeNumbers'', JBool False)]\<rparr>) =
        Responded (bad_request ''At least one character type must be selected'')
      \<longleftrightarrow>
        object_props
             [(''length'', JNum (Fin 2)), (''includeUpper'', JBool False),
              (''includeLower'', JBool False), (''includeNumbers'', JBool False)]
           ''includeUpper'' = JBool False \<and>
        object_props
             [(''length'', JNum (Fin 2)), (''includeUpper'', JBool False),
              (''includeLower'', JBool False), (''includeNumbers'', JBool False)]
           ''includeLower'' = JBool False \<and>
        object_props
             [(''length'', JNum (Fin 2)), (''includeUpper'', JBool False),
              (''includeLower'', JBool False), (''includeNumbers'', JBool False)]
           ''includeNumbers'' = JBool False \<and>
        object_props
             [(''length'', JNum (Fin 2)), (''includeUpper'', JBool False),
              (''includeLower'', JBool False), (''includeNumbers'', JBool False)]
           ''includeSymbols'' \<noteq> JBool True)"
  by (simp add: validatePasswordRequest_def validateLength_def length_out_of_range_def
        object_props_def bad_request_def)

text \<open>
  Claim C1, amended. \<open>validatePasswordRequest\<close> answers with HTTP 400 and the error
  \<^verbatim>\<open>At least one character type must be selected\<close> if and only if the request passes
  the length check and the flag-type check, \<^verbatim>\<open>includeUpper\<close>, \<^verbatim>\<open>includeLower\<close> and
  \<^verbatim>\<open>includeNumbers\<close> are all explicitly \<^verbatim>\<open>false\<close> and \<^verbatim>\<open>includeSymbols\<close> is not
  explicitly \<^verbatim>\<open>true\<close>. An omitted \<^verbatim>\<open>includeUpper\<close>, \<^verbatim>\<open>includeLower\<close> or
  \<^verbatim>\<open>includeNumbers\<close> counts as selected, an omitted \<^verbatim>\<open>includeSymbols\<close> as not
  selected.
\<close>

theorem C1_type_selection:
  "(snd (validatePasswordRequest req) =
      Responded (bad_request ''At least one character type must be selected'')
    \<longleftrightarrow>
      (body req ''length'' = JUndefined \<or> \<not> length_out_of_range (body req ''length'')) \<and>
      (\<forall>f \<in> set booleanFields. \<not> non_boolean (body req) f) \<and>
      body req ''includeUpper'' = JBool False \<and>
      body req ''includeLower'' = JBool False \<and>
      body req ''includeNumbers'' = JBool False \<and>
      body req ''includeSymbols'' \<noteq> JBool True)
   \<and> (body req ''includeUpper'' = JUndefined \<or> body req ''includeLower'' = JUndefined \<or>
        body req ''includeNumbers'' = JUndefined
      \<longrightarrow> hasAtLeastOneType (body req))
   \<and> (body req ''includeUpper'' = JBool False \<and> body req ''includeLower'' = JBool False \<and>
        body req ''includeNumbers'' = JBool False \<and> body req ''includeSymbols'' = JUndefined
      \<longrightarrow> \<not> hasAtLeastOneType (body req))"
proof (intro conjI)
  show "snd (validatePasswordRequest req) =
      Responded (bad_request ''At least one character type must be selected'')
    \<longleftrightarrow>
      (body req ''length'' = JUndefined \<or> \<not> length_out_of_range (body req ''length'')) \<and>
      (\<forall>f \<in> set booleanFields. \<not> non_boolean (body req) f) \<and>
      body req ''includeUpper'' = JBool False \<and>
      body req ''includeLower'' = JBool False \<and>
      body req ''includeNumbers'' = JBool False \<and>
      body req ''includeSymbols'' \<noteq> JBool True"
    by (simp only: password_type_error_iff validateLength_None validateBooleanFlags_None
          hasAtLeastOneType_iff)
next
  show "body req ''includeUpper'' = JUndefined \<or> body req ''includeLower'' = JUndefined \<or>
        body req ''includeNumbers'' = JUndefined
      \<longrightarrow> hasAtLeastOneType (body req)"
    by (auto simp add: hasAtLeastOneType_def)
next
  show "body req ''includeUpper'' = JBool False \<and> body req ''includeLower'' = JBool False \<and>
        body req ''includeNumbers'' = JBool False \<and> body req ''includeSymbols'' = JUndefined
      \<longrightarrow> \<not> hasAtLeastOneType (body req)"
    by (simp add: hasAtLeastOneType_def)
qed

theorem C1_type_selection_witness:
  "snd (validatePasswordRequest
          \<lparr>body = object_props
             [(''includeUpper'', JBool False), (''includeLower'', JBool False),
              (''includeNumbers'', JBool False)]\<rparr>) =
      Responded (bad_request ''At least one character type must be selected'')
   \<and> hasAtLeastOneType (body
          \<lparr>body = object_props
             [(''includeUpper'', JBool False), (''includeLower'', JBool False)]\<rparr>)
   \<and> \<not> hasAtLeastOneType (body
          \<lparr>body = object_props
             [(''includeUpper'', JBool False), (''includeLower'', JBool False),
              (''includeNumbers'', JBool False)]\<rparr>)"
  using C1_type_selection [of "\<lparr>body = object_props
             [(''includeUpper'', JBool False), (''includeLower'', JBool False),
              (''includeNumbers'', JBool False)]\<rparr>"]
        C1_type_selection [of "\<lparr>body = object_props
             [(''includeUpper'', JBool False), (''includeLower'', JBool False)]\<rparr>"]
  by (simp add: object_props_def booleanFields_def non_boolean_def)

section \<open>validateBatchRequest\<close>

text \<open>
  Claim C5. For every request whose body defines \<^verbatim>\<open>count\<close>, \<open>validateBatchRequest\<close>
  answers with HTTP 400 and the error \<^verbatim>\<open>Count must be a number between 1 and 20\<close>
  exactly when \<^verbatim>\<open>count\<close> is not a number, or \<^verbatim>\<open>count < 1\<close>, or \<^verbatim>\<open>count > 20\<close>.
  Every batch request that is not answered so is handed to \<open>validatePasswordRequest\<close>
  with the same request, whose outcome is the outcome of the batch validation; so no
  batch request is accepted unless \<open>validatePasswordRequest\<close> accepts it.
\<close>

theorem C5_batch_count:
  "(body req ''count'' \<noteq> JUndefined \<longrightarrow>
      (snd (validateBatchRequest req) =
         Responded (bad_request ''Count must be a number between 1 and 20'')
       \<longleftrightarrow> typeof_js (body req ''count'') \<noteq> ''number'' \<or>
           (\<exists>n. body req ''count'' = JNum n \<and> (num_lt n (Fin 1) \<or> num_gt n (Fin 20)))))
   \<and> (\<forall>q. body req ''count'' = JNum (Fin q) \<longrightarrow>
        (snd (validateBatchRequest req) =
           Responded (bad_request ''Count must be a number between 1 and 20'')
         \<longleftrightarrow> q < 1 \<or> 20 < q))
   \<and> (snd (validateBatchRequest req) \<noteq>
         Responded (bad_request ''Count must be a number between 1 and 20'')
       \<longrightarrow> validateBatchRequest req = validatePasswordRequest req)
   \<and> (snd (validateBatchRequest req) = Next \<longrightarrow> snd (validatePasswordRequest req) = Next)"
proof -
  have out: "snd (validateBatchRequest req) =
         Responded (bad_request ''Count must be a number between 1 and 20'')
       \<longleftrightarrow> body req ''count'' \<noteq> JUndefined \<and> count_out_of_range (body req ''count'')"
    using password_not_count_error [of req]
    by (simp add: validateBatchRequest_def Let_def)
  have eq: "\<not> (body req ''count'' \<noteq> JUndefined \<and> count_out_of_range (body req ''count''))
       \<Longrightarrow> validateBatchRequest req = validatePasswordRequest req"
    by (auto simp add: validateBatchRequest_def Let_def)
  have nxt: "snd (validateBatchRequest req) = Next \<Longrightarrow> snd (validatePasswordRequest req) = Next"
    by (simp add: validateBatchRequest_def Let_def split: if_splits)
  have fin: "\<forall>q. body req ''count'' = JNum (Fin q) \<longrightarrow>
        (snd (validateBatchRequest req) =
           Responded (bad_request ''Count must be a number between 1 and 20'')
         \<longleftrightarrow> q < 1 \<or> 20 < q)"
    by (simp add: out count_out_of_range_def num_gt_def)
  from out eq nxt have "(body req ''count'' \<noteq> JUndefined \<longrightarrow>
      (snd (validateBatchRequest req) =
         Responded (bad_request ''Count must be a number between 1 and 20'')
       \<longleftrightarrow> typeof_js (body req ''count'') \<noteq> ''number'' \<or>
           (\<exists>n. body req ''count'' = JNum n \<and> (num_lt n (Fin 1) \<or> num_gt n (Fin 20)))))
   \<and> (snd (validateBatchRequest req) \<noteq>
         Responded (bad_request ''Count must be a number between 1 and 20'')
       \<longrightarrow> validateBatchRequest req = validatePasswordRequest req)
   \<and> (snd (validateBatchRequest req) = Next \<longrightarrow> snd (validatePasswordRequest req) = Next)"
    by (simp add: count_out_of_range_iff)
  with fin show ?thesis
    by blast
qed

theorem C5_batch_count_witness:
  "body \<lparr>body = object_props [(''count'', JNum (Fin 21))]\<rparr> ''count'' \<noteq> JUndefined
   \<and> snd (validateBatchRequest \<lparr>body = object_props [(''count'', JNum (Fin 21))]\<rparr>) =
         Responded (bad_request ''Count must be a number between 1 and 20'')
   \<and> validateBatchRequest \<lparr>body = object_props [(''count'', JNum (Fin 5)), (''length'', JNum (Fin 2))]\<rparr>
       = validatePasswordRequest \<lparr>body = object_props [(''count'', JNum (Fin 5)), (''length'', JNum (Fin 2))]\<rparr>
   \<and> snd (validatePasswordRequest \<lparr>body = object_props [(''count'', JNum (Fin 5))]\<rparr>) = Next"
  using C5_batch_count [of "\<lparr>body = object_props [(''count'', JNum (Fin 21))]\<rparr>"]
        C5_batch_count [of "\<lparr>body = object_props [(''count'', JNum (Fin 5)), (''length'', JNum (Fin 2))]\<rparr>"]
        C5_batch_count [of "\<lparr>body = object_props [(''count'', JNum (Fin 5))]\<rparr>"]
  by (simp add: object_props_def num_gt_def validateBatchRequest_def validatePasswordRequest_def
        validateLength_def booleanFields_def hasAtLeastOneType_def count_out_of_range_def
        length_out_of_range_def bad_request_def)

section \<open>validateStrengthRequest\<close>

text \<open>
  Claim C3. \<open>validateStrengthRequest\<close> accepts exactly the requests whose
  \<^verbatim>\<open>password\<close> is a string of 1 to 1000 code units; it answers with HTTP 400 when the
  password is missing, not a string, the empty string or longer than 1000. In particular
  the empty password is always rejected.
\<close>

theorem C3_strength_password:
  "(snd (validateStrengthRequest req) = Next \<longleftrightarrow>
      (\<exists>s. body req ''password'' = JStr s \<and> 1 \<le> length s \<and> length s \<le> 1000))
   \<and> ((\<exists>e. snd (validateStrengthRequest req) = Responded (bad_request e)) \<longleftrightarrow>
        body req ''password'' = JUndefined \<or>
        typeof_js (body req ''password'') \<noteq> ''string'' \<or>
        body req ''password'' = JStr [] \<or>
        (\<exists>s. body req ''password'' = JStr s \<and> length s > 1000))
   \<and> (body req ''password'' = JStr [] \<longrightarrow>
        (\<exists>e. snd (validateStrengthRequest req) = Responded (bad_request e)))"
proof -
  have rej: "(\<exists>e. snd (validateStrengthRequest req) = Responded (bad_request e)) \<longleftrightarrow>
      snd (validateStrengthRequest req) \<noteq> Next"
    using strength_Responded [of req] by auto
  have cases: "\<not> (\<exists>s. body req ''password'' = JStr s \<and> 1 \<le> length s \<and> length s \<le> 1000) \<longleftrightarrow>
        body req ''password'' = JUndefined \<or>
        typeof_js (body req ''password'') \<noteq> ''string'' \<or>
        body req ''password'' = JStr [] \<or>
        (\<exists>s. body req ''password'' = JStr s \<and> length s > 1000)"
    by (cases "body req ''password''") (auto simp add: Suc_le_eq)
  have empty: "body req ''password'' = JStr [] \<Longrightarrow>
      \<exists>e. snd (validateStrengthRequest req) = Responded (bad_request e)"
    by (simp add: rej strength_Next_iff)
  from cases empty show ?thesis
    by (simp only: rej strength_Next_iff) blast
qed

theorem C3_strength_password_witness:
  "snd (validateStrengthRequest \<lparr>body = object_props [(''password'', JStr (replicate 1000 97))]\<rparr>)
     = Next
   \<and> (\<exists>e. snd (validateStrengthRequest
              \<lparr>body = object_props [(''password'', JStr (replicate 1001 97))]\<rparr>) =
          Responded (bad_request e))
   \<and> (\<exists>e. snd (validateStrengthRequest \<lparr>body = object_props [(''password'', JStr [])]\<rparr>) =
          Responded (bad_request e))
   \<and> (\<exists>e. snd (validateStrengthRequest \<lparr>body = object_props []\<rparr>) =
          Responded (bad_request e))"
  using C3_strength_password [of "\<lparr>body = object_props [(''password'', JStr (replicate 1000 97))]\<rparr>"]
    C3_strength_password [of "\<lparr>body = object_props [(''password'', JStr (replicate 1001 97))]\<rparr>"]
    C3_strength_password [of "\<lparr>body = object_props [(''password'', JStr [])]\<rparr>"]
    C3_strength_password [of "\<lparr>body = object_props []\<rparr>"]
  by (simp add: object_props_def)

text \<open>
  Claim C8. No request is answered with \<^verbatim>\<open>Password cannot be empty\<close>: the empty
  string is falsy, so the test \<^verbatim>\<open>!password\<close> has already answered it with
  \<^verbatim>\<open>Password is required\<close>.
\<close>

theorem C8_empty_branch_unreachable:
  "snd (validateStrengthRequest req) \<noteq> Responded (bad_request ''Password cannot be empty'')
   \<and> (body req ''password'' = JStr [] \<longrightarrow>
        snd (validateStrengthRequest req) = Responded (bad_request ''Password is required''))"
  by (cases "body req ''password''")
     (auto simp add: validateStrengthRequest_outcome bad_request_def)

theorem C8_empty_branch_unreachable_witness:
  "snd (validateStrengthRequest \<lparr>body = object_props [(''password'', JStr [])]\<rparr>) =
     Responded (bad_request ''Password is required'')
   \<and> snd (validateStrengthRequest \<lparr>body = object_props [(''password'', JStr [])]\<rparr>) \<noteq>
     Responded (bad_request ''Password cannot be empty'')"
  using C8_empty_branch_unreachable [of "\<lparr>body = object_props [(''password'', JStr [])]\<rparr>"]
  by (simp add: object_props_def bad_request_def)

section \<open>validatePassphraseRequest\<close>

text \<open>
  Claim C6. \<open>validatePassphraseRequest\<close> answers with HTTP 400 exactly when a defined
  \<^verbatim>\<open>wordCount\<close> is not a number, less than 2 or greater than 10, or a defined
  \<^verbatim>\<open>separator\<close> is not a string or longer than 5 code units; a request whose defined
  fields satisfy both constraints is accepted. The word-count error is sent exactly when
  the word count is at fault, the separator error exactly when the word count is not at
  fault and the separator is.
\<close>

theorem C6_passphrase_fields:
  "(snd (validatePassphraseRequest req) =
      Responded (bad_request ''Word count must be a number between 2 and 10'')
    \<longleftrightarrow> body req ''wordCount'' \<noteq> JUndefined \<and>
        (typeof_js (body req ''wordCount'') \<noteq> ''number'' \<or>
         (\<exists>n. body req ''wordCount'' = JNum n \<and> (num_lt n (Fin 2) \<or> num_gt n (Fin 10)))))
   \<and> (\<forall>q. body req ''wordCount'' = JNum (Fin q) \<longrightarrow>
        (snd (validatePassphraseRequest req) =
           Responded (bad_request ''Word count must be a number between 2 and 10'')
         \<longleftrightarrow> q < 2 \<or> 10 < q))
   \<and> ((\<exists>e. snd (validatePassphraseRequest req) = Responded (bad_request e))
    \<longleftrightarrow> (body req ''wordCount'' \<noteq> JUndefined \<and>
         (typeof_js (body req ''wordCount'') \<noteq> ''number'' \<or>
          (\<exists>n. body req ''wordCount'' = JNum n \<and> (num_lt n (Fin 2) \<or> num_gt n (Fin 10)))))
        \<or> (body req ''separator'' \<noteq> JUndefined \<and>
         (typeof_js (body req ''separator'') \<noteq> ''string'' \<or>
          (\<exists>s. body req ''separator'' = JStr s \<and> length s > 5))))
   \<and> (snd (validatePassphraseRequest req) = Next
    \<longleftrightarrow> (body req ''wordCount'' = JUndefined \<or>
         (\<exists>n. body req ''wordCount'' = JNum n \<and> \<not> num_lt n (Fin 2) \<and> \<not> num_gt n (Fin 10)))
        \<and> (body req ''separator'' = JUndefined \<or>
         (\<exists>s. body req ''separator'' = JStr s \<and> length s \<le> 5)))
   \<and> (snd (validatePassphraseRequest req) =
      Responded (bad_request ''Separator must be a string with maximum 5 characters'')
    \<longleftrightarrow> \<not> (body req ''wordCount'' \<noteq> JUndefined \<and>
           (typeof_js (body req ''wordCount'') \<noteq> ''number'' \<or>
            (\<exists>n. body req ''wordCount'' = JNum n \<and> (num_lt n (Fin 2) \<or> num_gt n (Fin 10)))))
        \<and> body req ''separator'' \<noteq> JUndefined \<and>
        (typeof_js (body req ''separator'') \<noteq> ''string'' \<or>
         (\<exists>s. body req ''separator'' = JStr s \<and> length s > 5)))"
proof -
  let ?wc = "body req ''wordCount'' \<noteq> JUndefined \<and> wordCount_out_of_range (body req ''wordCount'')"
  let ?sep = "body req ''separator'' \<noteq> JUndefined \<and> separator_invalid (body req ''separator'')"
  have a: "snd (validatePassphraseRequest req) =
      Responded (bad_request ''Word count must be a number between 2 and 10'') \<longleftrightarrow> ?wc"
    by (simp add: validatePassphraseRequest_outcome bad_request_inj)
  have b: "(\<exists>e. snd (validatePassphraseRequest req) = Responded (bad_request e)) \<longleftrightarrow> ?wc \<or> ?sep"
    by (auto simp add: validatePassphraseRequest_outcome)
  have c: "snd (validatePassphraseRequest req) = Next \<longleftrightarrow>
      (body req ''wordCount'' = JUndefined \<or> \<not> wordCount_out_of_range (body req ''wordCount''))
      \<and> (body req ''separator'' = JUndefined \<or> \<not> separator_invalid (body req ''separator''))"
    by (auto simp add: validatePassphraseRequest_outcome)
  have d: "snd (validatePassphraseRequest req) =
      Responded (bad_request ''Separator must be a string with maximum 5 characters'')
      \<longleftrightarrow> \<not> ?wc \<and> ?sep"
    by (auto simp add: validatePassphraseRequest_outcome bad_request_inj)
  note a' = a [unfolded wordCount_out_of_range_iff]
  note b' = b [unfolded wordCount_out_of_range_iff separator_invalid_iff]
  note c' = c [unfolded wordCount_in_range_iff separator_valid_iff]
  note d' = d [unfolded wordCount_out_of_range_iff separator_invalid_iff]
  have e: "\<forall>q. body req ''wordCount'' = JNum (Fin q) \<longrightarrow>
        (snd (validatePassphraseRequest req) =
           Responded (bad_request ''Word count must be a number between 2 and 10'')
         \<longleftrightarrow> q < 2 \<or> 10 < q)"
    by (simp add: a wordCount_out_of_range_def num_gt_def)
  from a' e b' c' d' show ?thesis
    by (intro conjI)
qed

theorem C6_passphrase_fields_witness:
  "snd (validatePassphraseRequest \<lparr>body = object_props [(''wordCount'', JNum (Fin 11))]\<rparr>) =
      Responded (bad_request ''Word count must be a number between 2 and 10'')
   \<and> snd (validatePassphraseRequest
        \<lparr>body = object_props [(''separator'', JStr [45, 45, 45, 45, 45, 45])]\<rparr>) =
      Responded (bad_request ''Separator must be a string with maximum 5 characters'')
   \<and> snd (validatePassphraseRequest
        \<lparr>body = object_props [(''wordCount'', JNum (Fin 4)), (''separator'', JStr [45])]\<rparr>) = Next"
  using C6_passphrase_fields [of "\<lparr>body = object_props [(''wordCount'', JNum (Fin 11))]\<rparr>"]
    C6_passphrase_fields [of
      "\<lparr>body = object_props [(''separator'', JStr [45, 45, 45, 45, 45, 45])]\<rparr>"]
    C6_passphrase_fields [of
      "\<lparr>body = object_props [(''wordCount'', JNum (Fin 4)), (''separator'', JStr [45])]\<rparr>"]
  by (simp add: object_props_def num_gt_def)

text \<open>
  Claim C2, as stated, fails: a request whose \<^verbatim>\<open>separator\<close> is the empty string is
  accepted.
\<close>

theorem C2_counterexample:
  "snd (validatePassphraseRequest \<lparr>body = object_props [(''separator'', JStr [])]\<rparr>) = Next"
  by (simp add: validatePassphraseRequest_def Let_def object_props_def separator_invalid_def)

text \<open>
  Claim C2, amended. \<open>validatePassphraseRequest\<close> enforces only the upper bound of 5
  on the separator: a request whose \<^verbatim>\<open>separator\<close> is the empty string is never answered
  with the separator error, and it is accepted exactly when its \<^verbatim>\<open>wordCount\<close> is
  absent or passes the word-count check.
\<close>

theorem C2_separator_upper_bound_only:
  assumes "body req ''separator'' = JStr []"
  shows "snd (validatePassphraseRequest req) \<noteq>
           Responded (bad_request ''Separator must be a string with maximum 5 characters'')
       \<and> (snd (validatePassphraseRequest req) = Next \<longleftrightarrow>
            body req ''wordCount'' = JUndefined \<or>
            (\<exists>n. body req ''wordCount'' = JNum n \<and> \<not> num_lt n (Fin 2) \<and> \<not> num_gt n (Fin 10)))"
proof -
  from assms have sep: "\<not> separator_invalid (body req ''separator'')"
    by (simp add: separator_invalid_def)
  have "snd (validatePassphraseRequest req) \<noteq>
           Responded (bad_request ''Separator must be a string with maximum 5 characters'')"
    using sep by (simp add: validatePassphraseRequest_outcome bad_request_inj)
  moreover have "snd (validatePassphraseRequest req) = Next \<longleftrightarrow>
      body req ''wordCount'' = JUndefined \<or> \<not> wordCount_out_of_range (body req ''wordCount'')"
    using sep by (auto simp add: validatePassphraseRequest_outcome)
  ultimately show ?thesis
    by (simp only: wordCount_in_range_iff) simp
qed

theorem C2_separator_upper_bound_only_witness:
  "body \<lparr>body = object_props [(''wordCount'', JNum (Fin 3)), (''separator'', JStr [])]\<rparr>
     ''separator'' = JStr []
   \<and> snd (validatePassphraseRequest
        \<lparr>body = object_props [(''wordCount'', JNum (Fin 3)), (''separator'', JStr [])]\<rparr>) = Next"
  using C2_separator_upper_bound_only [of
      "\<lparr>body = object_props [(''wordCount'', JNum (Fin 3)), (''separator'', JStr [])]\<rparr>"]
  by (simp add: object_props_def num_gt_def)

section \<open>Properties of all four validators\<close>

text \<open>
  Claim C9. Each of the four validation middleware leaves the request, and so
  \<^verbatim>\<open>req.body\<close>, as it received it, whether it answers or calls \<^verbatim>\<open>next()\<close>:
  validation installs no defaults.
\<close>

theorem C9_body_unchanged:
  "fst (validatePasswordRequest req) = req
   \<and> fst (validateBatchRequest req) = req
   \<and> fst (validateStrengthRequest req) = req
   \<and> fst (validatePassphraseRequest req) = req"
proof (intro conjI)
  show "fst (validatePasswordRequest req) = req"
    by (rule validatePasswordRequest_fst)
  then show "fst (validateBatchRequest req) = req"
    by (simp add: validateBatchRequest_def Let_def)
  show "fst (validateStrengthRequest req) = req"
    by (cases "body req ''password''") (simp_all add: validateStrengthRequest_def Let_def)
  show "fst (validatePassphraseRequest req) = req"
    by (simp add: validatePassphraseRequest_def Let_def)
qed

theorem C9_body_unchanged_witness:
  "body (fst (validatePasswordRequest \<lparr>body = object_props [(''length'', JNum (Fin 8))]\<rparr>))
     = object_props [(''length'', JNum (Fin 8))]
   \<and> body (fst (validateBatchRequest \<lparr>body = object_props [(''count'', JNum (Fin 0))]\<rparr>))
     = object_props [(''count'', JNum (Fin 0))]
   \<and> body (fst (validateStrengthRequest \<lparr>body = object_props [(''password'', JStr [97])]\<rparr>))
     = object_props [(''password'', JStr [97])]
   \<and> body (fst (validatePassphraseRequest \<lparr>body = object_props [(''wordCount'', JNum (Fin 4))]\<rparr>))
     = object_props [(''wordCount'', JNum (Fin 4))]"
  using C9_body_unchanged [of "\<lparr>body = object_props [(''length'', JNum (Fin 8))]\<rparr>"]
    C9_body_unchanged [of "\<lparr>body = object_props [(''count'', JNum (Fin 0))]\<rparr>"]
    C9_body_unchanged [of "\<lparr>body = object_props [(''password'', JStr [97])]\<rparr>"]
    C9_body_unchanged [of "\<lparr>body = object_props [(''wordCount'', JNum (Fin 4))]\<rparr>"]
  by simp

text \<open>
  Claim C10. An omitted optional field skips its check: when \<^verbatim>\<open>length\<close>
  (respectively \<^verbatim>\<open>count\<close>, \<^verbatim>\<open>wordCount\<close>, \<^verbatim>\<open>separator\<close>) is undefined,
  \<open>validatePasswordRequest\<close> (respectively \<open>validateBatchRequest\<close>,
  \<open>validatePassphraseRequest\<close>) does not answer with the error of that field.
\<close>

theorem C10_omitted_fields_skip_checks:
  "(body req ''length'' = JUndefined \<longrightarrow>
      validateLength (body req) = None \<and>
      snd (validatePasswordRequest req) \<noteq>
        Responded (bad_request ''Length must be a number between 4 and 128''))
   \<and> (body req ''count'' = JUndefined \<longrightarrow>
      validateBatchRequest req = validatePasswordRequest req \<and>
      snd (validateBatchRequest req) \<noteq>
        Responded (bad_request ''Count must be a number between 1 and 20''))
   \<and> (body req ''wordCount'' = JUndefined \<longrightarrow>
      snd (validatePassphraseRequest req) \<noteq>
        Responded (bad_request ''Word count must be a number between 2 and 10''))
   \<and> (body req ''separator'' = JUndefined \<longrightarrow>
      snd (validatePassphraseRequest req) \<noteq>
        Responded (bad_request ''Separator must be a string with maximum 5 characters''))"
proof (intro conjI impI)
  assume u: "body req ''length'' = JUndefined"
  then show "validateLength (body req) = None"
    by (simp add: validateLength_None)
  then show "snd (validatePasswordRequest req) \<noteq>
        Responded (bad_request ''Length must be a number between 4 and 128'')"
    by (simp add: password_length_error_iff)
next
  assume u: "body req ''count'' = JUndefined"
  then show eq: "validateBatchRequest req = validatePasswordRequest req"
    by (simp add: validateBatchRequest_def Let_def)
  show "snd (validateBatchRequest req) \<noteq>
        Responded (bad_request ''Count must be a number between 1 and 20'')"
    by (simp add: eq password_not_count_error)
next
  assume "body req ''wordCount'' = JUndefined"
  then show "snd (validatePassphraseRequest req) \<noteq>
        Responded (bad_request ''Word count must be a number between 2 and 10'')"
    by (simp add: validatePassphraseRequest_outcome bad_request_inj)
next
  assume "body req ''separator'' = JUndefined"
  then show "snd (validatePassphraseRequest req) \<noteq>
        Responded (bad_request ''Separator must be a string with maximum 5 characters'')"
    by (simp add: validatePassphraseRequest_outcome bad_request_inj)
qed

theorem C10_omitted_fields_skip_checks_witness:
  "body \<lparr>body = object_props []\<rparr> ''length'' = JUndefined
   \<and> body \<lparr>body = object_props []\<rparr> ''count'' = JUndefined
   \<and> body \<lparr>body = object_props []\<rparr> ''wordCount'' = JUndefined
   \<and> body \<lparr>body = object_props []\<rparr> ''separator'' = JUndefined
   \<and> snd (validatePasswordRequest \<lparr>body = object_props []\<rparr>) \<noteq>
        Responded (bad_request ''Length must be a number between 4 and 128'')
   \<and> validateBatchRequest \<lparr>body = object_props []\<rparr> =
        validatePasswordRequest \<lparr>body = object_props []\<rparr>
   \<and> snd (validatePassphraseRequest \<lparr>body = object_props []\<rparr>) \<noteq>
        Responded (bad_request ''Word count must be a number between 2 and 10'')
   \<and> snd (validatePassphraseRequest \<lparr>body = object_props []\<rparr>) \<noteq>
        Responded (bad_request ''Separator must be a string with maximum 5 characters'')"
  using C10_omitted_fields_skip_checks [of "\<lparr>body = object_props []\<rparr>"]
  by (simp add: object_props_def)

end
